theory Spec2Isabelle
  imports Complex_Main "HOL-Library.Sublist"
begin

section \<open>Errors and loops\<close>

text \<open>
  The Python exceptions the modelled functions can raise. \<open>ValueError\<close> carries the
  message of the \<^verbatim>\<open>raise\<close> statement, or a short tag where the standard library or
  numpy raises it. A function that may raise returns \<open>error + 'a\<close>, with \<open>Inl\<close> for
  the exception.
\<close>

datatype error = ValueError string | IndexError | OSError

text \<open>
  \<^verbatim>\<open>for i in range(0, n): body\<close> over a mutable state: the body is run for each index in
  turn, and the first exception leaves the loop.
\<close>

fun for_loop :: "nat list \<Rightarrow> ('s \<Rightarrow> nat \<Rightarrow> error + 's) \<Rightarrow> 's \<Rightarrow> error + 's" where
  "for_loop [] body st = Inr st"
| "for_loop (i # is) body st =
     (case body st i of Inl e \<Rightarrow> Inl e | Inr st' \<Rightarrow> for_loop is body st')"

text \<open>\<^verbatim>\<open>xs[i]\<close> for a non-negative index: IndexError out of range.\<close>

definition getitem :: "'a list \<Rightarrow> nat \<Rightarrow> error + 'a" where
  "getitem xs i = (if i < length xs then Inr (xs ! i) else Inl IndexError)"

section \<open>dataset\_tester.\_compare\_with\_own\_classifier\<close>

text \<open>
  One block written to \<^verbatim>\<open>comparision_details.txt\<close> for a sample: the line
  \<^verbatim>\<open>Difference between versions!\<close>, the line \<^verbatim>\<open>Ground true: ...\<close> and one line
  \<^verbatim>\<open>name: prediction\<close> for every variant.
\<close>

record 'l details_entry =
  ground_true :: 'l
  versions :: "(string \<times> 'l) list"

text \<open>What the function prints to standard output after the loop.\<close>

datatype console_line = AllResultsTheSame | NumberOfErrors string nat

text \<open>
  The locals that the two nested loops update. \<open>number_of_errors\<close> is
  \<^verbatim>\<open>np.zeros(len(results))\<close>, incremented by one: a natural number per variant.
  \<open>comparision_file\<close> is the list of blocks written so far.
\<close>

record 'l compare_state =
  number_of_errors :: "nat list"
  flag_no_errors :: bool
  flag_iteration_error :: bool
  comparision_file :: "'l details_entry list"

text \<open>Lines 186-189: the body of the loop over the variants \<open>i\<close>, for the sample \<open>j\<close>.\<close>

definition check_variant ::
  "'l list list \<Rightarrow> 'l list \<Rightarrow> nat \<Rightarrow> 'l compare_state \<Rightarrow> nat \<Rightarrow> error + 'l compare_state" where
  "check_variant results test_target j st i =
     (case getitem (results ! i) j of
        Inl e \<Rightarrow> Inl e
      | Inr p \<Rightarrow>
          if p \<noteq> test_target ! j
          then Inr (st\<lparr>number_of_errors := (number_of_errors st)[i := number_of_errors st ! i + 1],
                      flag_no_errors := False,
                      flag_iteration_error := True\<rparr>)
          else Inr st)"

text \<open>Lines 194-195: one line per variant, \<^verbatim>\<open>results_names[i]\<close> and \<^verbatim>\<open>results[i][j]\<close>.\<close>

fun version_lines ::
  "'l list list \<Rightarrow> string list \<Rightarrow> nat \<Rightarrow> nat list \<Rightarrow> error + (string \<times> 'l) list" where
  "version_lines results results_names j [] = Inr []"
| "version_lines results results_names j (i # is) =
     (case getitem results_names i of
        Inl e \<Rightarrow> Inl e
      | Inr n \<Rightarrow>
          (case getitem (results ! i) j of
             Inl e \<Rightarrow> Inl e
           | Inr p \<Rightarrow>
               (case version_lines results results_names j is of
                  Inl e \<Rightarrow> Inl e
                | Inr ls \<Rightarrow> Inr ((n, p) # ls))))"

text \<open>Lines 183-195: the body of the loop over the samples \<open>j\<close>.\<close>

definition check_sample ::
  "'l list list \<Rightarrow> string list \<Rightarrow> 'l list \<Rightarrow> bool \<Rightarrow> 'l compare_state \<Rightarrow> nat
     \<Rightarrow> error + 'l compare_state" where
  "check_sample results results_names test_target flag_save_details_to_file st j =
     (case for_loop [0..<length results] (check_variant results test_target j)
             (st\<lparr>flag_iteration_error := False\<rparr>) of
        Inl e \<Rightarrow> Inl e
      | Inr st' \<Rightarrow>
          if flag_iteration_error st' \<and> flag_save_details_to_file
          then (case version_lines results results_names j [0..<length results] of
                  Inl e \<Rightarrow> Inl e
                | Inr ls \<Rightarrow>
                    Inr (st'\<lparr>comparision_file := comparision_file st' @
                               [\<lparr>ground_true = test_target ! j, versions = ls\<rparr>]\<rparr>))
          else Inr st')"

text \<open>Lines 197-201: the summary on standard output.\<close>

fun error_lines :: "string list \<Rightarrow> nat list \<Rightarrow> nat list \<Rightarrow> error + console_line list" where
  "error_lines results_names errs [] = Inr []"
| "error_lines results_names errs (i # is) =
     (case getitem results_names i of
        Inl e \<Rightarrow> Inl e
      | Inr n \<Rightarrow>
          (case error_lines results_names errs is of
             Inl e \<Rightarrow> Inl e
           | Inr ls \<Rightarrow> Inr (NumberOfErrors n (errs ! i) # ls)))"

text \<open>
  What a call leaves behind: the final \<open>number_of_errors\<close>, the blocks written to the
  details file and the lines printed.
\<close>

record 'l comparison =
  errors_per_variant :: "nat list"
  details :: "'l details_entry list"
  console :: "console_line list"

text \<open>
  The function itself (the leading underscore of the Python name is dropped). \<open>can_open\<close>
  says whether \<^verbatim>\<open>open(path + "/comparision_details.txt", "w")\<close> succeeds; the path has
  no other use. The function returns \<^verbatim>\<open>None\<close>; the model returns what it wrote.
\<close>

definition compare_with_own_classifier ::
  "'l list list \<Rightarrow> string list \<Rightarrow> 'l list \<Rightarrow> bool \<Rightarrow> bool \<Rightarrow> error + 'l comparison" where
  "compare_with_own_classifier results results_names test_target flag_save_details_to_file can_open =
     (if flag_save_details_to_file \<and> \<not> can_open then Inl OSError
      else
        (case for_loop [0..<length test_target]
                (check_sample results results_names test_target flag_save_details_to_file)
                \<lparr>number_of_errors = replicate (length results) 0,
                 flag_no_errors = True,
                 flag_iteration_error = False,
                 comparision_file = []\<rparr> of
           Inl e \<Rightarrow> Inl e
         | Inr st \<Rightarrow>
             if flag_no_errors st
             then Inr \<lparr>errors_per_variant = number_of_errors st,
                       details = comparision_file st,
                       console = [AllResultsTheSame]\<rparr>
             else (case error_lines results_names (number_of_errors st) [0..<length results] of
                     Inl e \<Rightarrow> Inl e
                   | Inr ls \<Rightarrow>
                       Inr \<lparr>errors_per_variant = number_of_errors st,
                            details = comparision_file st,
                            console = ls\<rparr>)))"

subsection \<open>Vocabulary of the comparison properties\<close>

text \<open>
  Vocabulary for the properties of the comparison. \<open>mismatch\<close>: variant \<open>i\<close> differs from the
  ground truth at sample \<open>j\<close> (the test of line 186).
\<close>

definition mismatch :: "'l list list \<Rightarrow> 'l list \<Rightarrow> nat \<Rightarrow> nat \<Rightarrow> bool" where
  "mismatch results test_target i j = (results ! i ! j \<noteq> test_target ! j)"

text \<open>Some variant differs from the ground truth at sample \<open>j\<close>.\<close>

definition any_mismatch :: "'l list list \<Rightarrow> 'l list \<Rightarrow> nat \<Rightarrow> bool" where
  "any_mismatch results test_target j = (\<exists>i < length results. mismatch results test_target i j)"

text \<open>The block that lines 192-195 write for sample \<open>j\<close>.\<close>

definition entry_for :: "'l list list \<Rightarrow> string list \<Rightarrow> 'l list \<Rightarrow> nat \<Rightarrow> 'l details_entry" where
  "entry_for results results_names test_target j =
     \<lparr>ground_true = test_target ! j,
      versions = map (\<lambda>i. (results_names ! i, results ! i ! j)) [0..<length results]\<rparr>"


text \<open>
  A comparison run: every variant has a prediction for every sample of the ground truth,
  and every variant has a name.
\<close>

definition well_formed :: "'l list list \<Rightarrow> string list \<Rightarrow> 'l list \<Rightarrow> bool" where
  "well_formed results results_names test_target =
     (list_all (\<lambda>r. length test_target \<le> length r) results \<and> length results \<le> length results_names)"


section \<open>dataset\_tester.generate\_my\_classifier\<close>

text \<open>
  The class of a scikit-learn estimator, as far as the \<^verbatim>\<open>isinstance\<close> tests of lines 153
  and 156 and the imports of the module tell classes apart: the three classes the module
  imports from scikit-learn, and any other class. An instance of a subclass of one of them
  counts as an instance of that class.
\<close>

datatype sk_class =
  DecisionTreeClassifier | RandomForestClassifier | RandomForestRegressor | OtherEstimator

text \<open>An estimator: its class and its fitted parameters, which stay abstract.\<close>

record 'm sk_clf =
  sk_class :: sk_class
  sk_params :: 'm

text \<open>
  The two classes of \<^verbatim>\<open>decision_trees.vhdl_generators\<close>, and an object of one of them: the
  three constructor arguments and the estimator it was built from.
\<close>

datatype own_class = Tree | RandomForest

record 'm own_clf =
  own_class :: own_class
  own_name :: string
  own_number_of_features :: int
  own_number_of_bits_per_feature :: int
  built_from :: "'m sk_clf option"

text \<open>
  What a run does beyond returning a value, in order: the lines printed, the reports, and
  the calls of the constructors and methods of \<^verbatim>\<open>Tree\<close> and \<^verbatim>\<open>RandomForest\<close>.
\<close>

datatype 'l effect =
    Printed string
  | Reported "'l list" "'l list" "string option"
  | DifferencesPrinted nat
  | Constructed own_class string int int
  | Built own_class
  | VhdlFileCreated string
  | ParametersPrinted "string option"

text \<open>
  Modelled from the spec: the constructors of \<^verbatim>\<open>Tree\<close> and \<^verbatim>\<open>RandomForest\<close>
  (\<^verbatim>\<open>decision_trees/vhdl_generators\<close>, not among the sources). The object keeps the name,
  the number of features and the bit width it is given; it is not built yet.
\<close>

definition new_own_clf :: "own_class \<Rightarrow> string \<Rightarrow> int \<Rightarrow> int \<Rightarrow> 'm own_clf" where
  "new_own_clf c name number_of_features number_of_bits_per_feature =
     \<lparr>own_class = c, own_name = name,
      own_number_of_features = number_of_features,
      own_number_of_bits_per_feature = number_of_bits_per_feature,
      built_from = None\<rparr>"

text \<open>
  Modelled from the spec: \<^verbatim>\<open>build\<close> of \<^verbatim>\<open>Tree\<close> and \<^verbatim>\<open>RandomForest\<close>, not among the
  sources. The fixed-point model is built once from the reference model and keeps its
  structure; the model records the estimator it was built from.
\<close>

definition build :: "'m own_clf \<Rightarrow> 'm sk_clf \<Rightarrow> 'm own_clf" where
  "build my_clf clf = my_clf\<lparr>built_from := Some clf\<rparr>"

text \<open>
  Lines 146-167. The result is the trace of the call and either the exception or the
  object returned.
\<close>

definition generate_my_classifier ::
  "'m sk_clf \<Rightarrow> int \<Rightarrow> int \<Rightarrow> string \<Rightarrow> string option
     \<Rightarrow> 'l effect list \<times> (error + 'm own_clf)" where
  "generate_my_classifier clf number_of_features number_of_bits_per_feature path result_file =
     (if sk_class clf = DecisionTreeClassifier
      then ([Printed ''Creating decision tree classifier!'',
             Constructed Tree ''DecisionTreeClassifier'' number_of_features number_of_bits_per_feature,
             Built Tree, VhdlFileCreated path, ParametersPrinted result_file],
            Inr (build (new_own_clf Tree ''DecisionTreeClassifier''
                          number_of_features number_of_bits_per_feature) clf))
      else if sk_class clf = RandomForestClassifier
      then ([Printed ''Creating random forest classifier!'',
             Constructed RandomForest ''RandomForestClassifier'' number_of_features number_of_bits_per_feature,
             Built RandomForest, VhdlFileCreated path, ParametersPrinted result_file],
            Inr (build (new_own_clf RandomForest ''RandomForestClassifier''
                          number_of_features number_of_bits_per_feature) clf))
      else ([Printed ''Unknown type of classifier!''],
            Inl (ValueError ''Unknown type of classifier!'')))"

section \<open>dataset\_tester.test\_dataset\<close>

text \<open>
  The functions that \<^verbatim>\<open>test_dataset\<close> calls and that are not among the sources:
  \<^verbatim>\<open>fit\<close> and \<^verbatim>\<open>predict\<close> of scikit-learn, \<^verbatim>\<open>quantize_data\<close> of
  \<^verbatim>\<open>decision_trees.utils.convert_to_fixed_point\<close> and \<^verbatim>\<open>predict\<close> of \<^verbatim>\<open>Tree\<close> and
  \<^verbatim>\<open>RandomForest\<close>. They are parameters of the model. \<open>sk_fit\<close> gives the fitted
  parameters; the class of the estimator does not change.
\<close>

record ('m, 'l) externals =
  sk_fit :: "'m sk_clf \<Rightarrow> real list list \<Rightarrow> 'l list \<Rightarrow> 'm"
  sk_predict :: "'m sk_clf \<Rightarrow> real list list \<Rightarrow> 'l list"
  quantize_data :: "real list list \<Rightarrow> real list list \<Rightarrow> int \<Rightarrow> real list list \<times> real list list"
  own_predict :: "'m own_clf \<Rightarrow> real list list \<Rightarrow> 'l list"

text \<open>
  What a completed run leaves: the fixed-point classifier, the arguments of the call of
  \<^verbatim>\<open>_compare_with_own_classifier\<close> and what that call wrote.
\<close>

record ('m, 'l) run =
  run_my_clf :: "'m own_clf"
  compared_results :: "'l list list"
  compared_names :: "string list"
  compared_target :: "'l list"
  run_comparison :: "'l comparison"

text \<open>Line 64: \<^verbatim>\<open>np.sum(a != b)\<close> for two arrays of the same length.\<close>

definition differences :: "'l list \<Rightarrow> 'l list \<Rightarrow> nat" where
  "differences a b = length (filter (\<lambda>(x, y). x \<noteq> y) (zip a b))"

text \<open>
  Lines 17-73. \<open>clf\<close> is the estimator that \<^verbatim>\<open>get_classifier\<close> returns (line 35) and
  \<open>path\<close> the directory of the run (lines 25-32); \<^verbatim>\<open>clf_type\<close> only selects the format of
  the reports. \<open>can_open\<close> is passed on to the comparison.
\<close>

definition test_dataset ::
  "('m, 'l) externals \<Rightarrow> bool \<Rightarrow> int \<Rightarrow> real list list \<Rightarrow> 'l list \<Rightarrow> real list list \<Rightarrow> 'l list
     \<Rightarrow> 'm sk_clf \<Rightarrow> string \<Rightarrow> 'l effect list \<times> (error + ('m, 'l) run)" where
  "test_dataset ext can_open number_of_bits_per_feature train_data train_target test_data test_target
       clf path =
     (let result_file = path @ ''/score.txt'';
          clf1 = clf\<lparr>sk_params := sk_fit ext clf train_data train_target\<rparr>;
          test_predicted = sk_predict ext clf1 test_data;
          eff1 = [Printed ''scikit clf with test data:'',
                  Reported test_target test_predicted (Some result_file)];
          (train_data_quantized, test_data_quantized) =
             quantize_data ext train_data test_data number_of_bits_per_feature;
          clf2 = clf1\<lparr>sk_params := sk_fit ext clf1 train_data_quantized train_target\<rparr>;
          test_predicted_quantized = sk_predict ext clf2 test_data_quantized;
          eff2 = [Printed ''scikit clf with train and test data quantized:'',
                  Reported test_target test_predicted_quantized (Some result_file)]
      in case train_data of
           [] \<Rightarrow> (eff1 @ eff2, Inl IndexError)
         | row # _ \<Rightarrow>
             (let number_of_features = int (length row);
                  (eff3, generated) =
                     generate_my_classifier clf2 number_of_features
                       (number_of_bits_per_feature + 1) path None
              in case generated of
                   Inl e \<Rightarrow> (eff1 @ eff2 @ eff3, Inl e)
                 | Inr my_clf \<Rightarrow>
                     (let my_clf_test_predicted_quantized = own_predict ext my_clf test_data_quantized;
                          eff4 = [Printed ''own clf with train and test data quantized:'',
                                  Reported test_target my_clf_test_predicted_quantized None,
                                  DifferencesPrinted
                                    (differences test_predicted_quantized my_clf_test_predicted_quantized)];
                          results = [test_predicted, test_predicted_quantized,
                                     my_clf_test_predicted_quantized];
                          results_names = [''scikit'', ''scikit_quantized'', ''own_clf_quantized'']
                      in case compare_with_own_classifier results results_names test_target True can_open of
                           Inl e \<Rightarrow> (eff1 @ eff2 @ eff3 @ eff4, Inl e)
                         | Inr c \<Rightarrow>
                             (eff1 @ eff2 @ eff3 @ eff4,
                              Inr \<lparr>run_my_clf = my_clf,
                                   compared_results = results,
                                   compared_names = results_names,
                                   compared_target = test_target,
                                   run_comparison = c\<rparr>))))"

subsection \<open>Vocabulary of the pipeline properties\<close>


text \<open>
  A concrete choice of the external functions, for the examples: the estimator predicts
  \<open>0\<close> and the fixed-point classifier \<open>1\<close> for every row, and quantization changes
  nothing.
\<close>

definition demo_externals :: "(unit, int) externals" where
  "demo_externals =
     \<lparr>sk_fit = (\<lambda>clf X y. ()),
      sk_predict = (\<lambda>clf X. map (\<lambda>row. 0) X),
      quantize_data = (\<lambda>train test b. (train, test)),
      own_predict = (\<lambda>my_clf X. map (\<lambda>row. 1) X)\<rparr>"

text \<open>The bit width that a constructor call of the trace was given.\<close>

definition constructed_bits :: "'l effect \<Rightarrow> int option" where
  "constructed_bits e = (case e of Constructed c name nf nb \<Rightarrow> Some nb | _ \<Rightarrow> None)"

section \<open>datasets.emg\_raw.EMGRaw\<close>

text \<open>
  The fields of an \<^verbatim>\<open>EMGRaw\<close> object that the loader updates (\<^verbatim>\<open>self._min_rms\<close> and so
  on). Numbers are real numbers: the rounding of \<^verbatim>\<open>float32\<close> is not modelled, and the
  cells of the input files are taken to be finite. A minimum of \<open>None\<close> is
  \<^verbatim>\<open>float('inf')\<close>, the value that \<^verbatim>\<open>__init__\<close> stores.
\<close>

record emg_raw =
  self_min_rms :: "real option"
  self_max_rms :: real
  self_min_zero_crossings :: "real option"
  self_max_zero_crossings :: real

text \<open>Lines 12-17: \<^verbatim>\<open>__init__\<close>.\<close>

definition EMGRaw_init :: emg_raw where
  "EMGRaw_init =
     \<lparr>self_min_rms = None, self_max_rms = 0,
      self_min_zero_crossings = None, self_max_zero_crossings = 0\<rparr>"

text \<open>The slices \<^verbatim>\<open>data[:, :8]\<close> and \<^verbatim>\<open>data[:, 8:]\<close>, as the list of their entries.\<close>

definition rms_entries :: "real list list \<Rightarrow> real list" where
  "rms_entries data = concat (map (take 8) data)"

definition zero_crossings_entries :: "real list list \<Rightarrow> real list" where
  "zero_crossings_entries data = concat (map (drop 8) data)"

text \<open>\<^verbatim>\<open>x < self._min\<close> against a stored minimum that may be infinite.\<close>

definition below :: "real \<Rightarrow> real option \<Rightarrow> bool" where
  "below x stored = (case stored of None \<Rightarrow> True | Some m \<Rightarrow> x < m)"

text \<open>
  Lines 19-35. \<open>data\<close> is the array of the rows read. An array without rows is
  one-dimensional, and \<^verbatim>\<open>data[:, :8]\<close> raises IndexError; \<^verbatim>\<open>np.amin\<close> and
  \<^verbatim>\<open>np.amax\<close> raise ValueError on a slice without entries.
\<close>

definition update_min_max :: "emg_raw \<Rightarrow> real list list \<Rightarrow> error + emg_raw" where
  "update_min_max self data =
     (if data = [] then Inl IndexError
      else if rms_entries data = [] then Inl (ValueError ''zero-size array'')
      else if zero_crossings_entries data = [] then Inl (ValueError ''zero-size array'')
      else
        (let min_rms = Min (set (rms_entries data));
             max_rms = Max (set (rms_entries data));
             min_zero_crossings = Min (set (zero_crossings_entries data));
             max_zero_crossings = Max (set (zero_crossings_entries data));
             self1 = (if below min_rms (self_min_rms self)
                      then self\<lparr>self_min_rms := Some min_rms\<rparr> else self);
             self2 = (if max_rms > self_max_rms self1
                      then self1\<lparr>self_max_rms := max_rms\<rparr> else self1);
             self3 = (if below min_zero_crossings (self_min_zero_crossings self2)
                      then self2\<lparr>self_min_zero_crossings := Some min_zero_crossings\<rparr> else self2);
             self4 = (if max_zero_crossings > self_max_zero_crossings self3
                      then self3\<lparr>self_max_zero_crossings := max_zero_crossings\<rparr> else self3)
         in Inr self4))"

text \<open>\<^verbatim>\<open>row.index(x)\<close>: the index of the first element equal to \<open>x\<close>, if there is one.\<close>

fun index_of :: "'a \<Rightarrow> 'a list \<Rightarrow> nat option" where
  "index_of x [] = None"
| "index_of x (y # ys) = (if y = x then Some 0 else map_option Suc (index_of x ys))"

text \<open>
  Lines 43-46: the tuple appended for a row of cells. \<open>to_float\<close> is Python's
  \<^verbatim>\<open>float\<close> on a string, \<open>None\<close> where it raises ValueError.
\<close>

definition load_row :: "(string \<Rightarrow> real option) \<Rightarrow> bool \<Rightarrow> string list \<Rightarrow> error + real list" where
  "load_row to_float is_output row =
     (if is_output
      then (case index_of ''1'' row of
              None \<Rightarrow> Inl (ValueError ''is not in list'')
            | Some i \<Rightarrow> Inr [real i])
      else (case those (map to_float row) of
              None \<Rightarrow> Inl (ValueError ''could not convert string to float'')
            | Some xs \<Rightarrow> Inr xs))"

text \<open>Lines 39-46: the rows of all files in turn; the first exception ends the reading.\<close>

fun load_rows ::
  "(string \<Rightarrow> real option) \<Rightarrow> bool \<Rightarrow> string list list \<Rightarrow> error + real list list" where
  "load_rows to_float is_output [] = Inr []"
| "load_rows to_float is_output (row # rows) =
     (case load_row to_float is_output row of
        Inl e \<Rightarrow> Inl e
      | Inr t \<Rightarrow>
          (case load_rows to_float is_output rows of
             Inl e \<Rightarrow> Inl e
           | Inr ts \<Rightarrow> Inr (t # ts)))"

text \<open>\<^verbatim>\<open>np.array(data, dtype=np.float32)\<close> raises ValueError on rows of different lengths.\<close>

definition rectangular :: "'a list list \<Rightarrow> bool" where
  "rectangular data = (case data of [] \<Rightarrow> True | r # rs \<Rightarrow> list_all (\<lambda>r'. length r' = length r) rs)"

text \<open>
  Lines 37-52. \<open>files\<close> are the contents of the files of \<^verbatim>\<open>files_paths\<close>, each the list
  of rows that \<^verbatim>\<open>csv.reader\<close> yields. The result is the array and the updated object.
\<close>

definition load_files ::
  "(string \<Rightarrow> real option) \<Rightarrow> emg_raw \<Rightarrow> string list list list \<Rightarrow> bool
     \<Rightarrow> error + (real list list \<times> emg_raw)" where
  "load_files to_float self files is_output =
     (case load_rows to_float is_output (concat files) of
        Inl e \<Rightarrow> Inl e
      | Inr data \<Rightarrow>
          if \<not> rectangular data then Inl (ValueError ''inhomogeneous shape'')
          else if \<not> is_output
          then (case update_min_max self data of
                  Inl e \<Rightarrow> Inl e
                | Inr self' \<Rightarrow> Inr (data, self'))
          else Inr (data, self))"

text \<open>
  The entries of a normalised array. \<open>None\<close> is an entry that is not a finite number
  (\<^verbatim>\<open>nan\<close> or an infinity): numpy gives one where the bounds coincide or the minimum is
  still infinite.
\<close>

definition scale :: "real option \<Rightarrow> real \<Rightarrow> real \<Rightarrow> real option" where
  "scale lo hi x =
     (case lo of
        None \<Rightarrow> None
      | Some l \<Rightarrow> if hi - l = 0 then None else Some ((x - l) / (hi - l)))"

definition normalise_row :: "emg_raw \<Rightarrow> real list \<Rightarrow> real option list" where
  "normalise_row self row =
     map (scale (self_min_rms self) (self_max_rms self)) (take 8 row) @
     map (scale (self_min_zero_crossings self) (self_max_zero_crossings self)) (drop 8 row)"

text \<open>Lines 80-84. An array without rows is one-dimensional: IndexError.\<close>

definition normalise :: "emg_raw \<Rightarrow> real list list \<Rightarrow> error + real option list list" where
  "normalise self data =
     (if data = [] then Inl IndexError else Inr (map (normalise_row self) data))"

text \<open>\<^verbatim>\<open>sub in s\<close> for strings.\<close>

fun str_contains :: "string \<Rightarrow> string \<Rightarrow> bool" where
  "str_contains sub [] = (sub = [])"
| "str_contains sub (c # cs) = (prefix sub (c # cs) \<or> str_contains sub cs)"

text \<open>Lines 59-68: the list that a file of the directory is appended to.\<close>

datatype file_role = InputTrain | OutputTrain | InputTest | OutputTest | Ignored

definition role_of :: "string \<Rightarrow> file_role" where
  "role_of name =
     (if str_contains ''trainvalid_i'' name then InputTrain
      else if str_contains ''trainvalid_o'' name then OutputTrain
      else if str_contains ''test_i'' name then InputTest
      else if str_contains ''test_o'' name then OutputTest
      else Ignored)"

definition files_of :: "file_role \<Rightarrow> (string \<times> string list list) list \<Rightarrow> string list list list" where
  "files_of role directory = map snd (filter (\<lambda>entry. role_of (fst entry) = role) directory)"

text \<open>
  One statement after another: the second runs on the value of the first unless the
  first raised.
\<close>

definition and_then :: "error + 'a \<Rightarrow> ('a \<Rightarrow> error + 'b) \<Rightarrow> error + 'b" where
  "and_then m f = (case m of Inl e \<Rightarrow> Inl e | Inr x \<Rightarrow> f x)"

text \<open>
  Lines 54-78. \<open>directory\<close> is what \<^verbatim>\<open>os.scandir(self._path)\<close> yields: the name and the
  rows of every file, in the order of the scan.
\<close>

definition load_data ::
  "(string \<Rightarrow> real option) \<Rightarrow> emg_raw \<Rightarrow> (string \<times> string list list) list
     \<Rightarrow> error + ((real option list list \<times> real list list \<times> real option list list \<times> real list list)
                  \<times> emg_raw)" where
  "load_data to_float self directory =
     and_then (load_files to_float self (files_of InputTrain directory) False)
       (\<lambda>(input_train_data, self1).
     and_then (load_files to_float self1 (files_of OutputTrain directory) True)
       (\<lambda>(output_train_data, self2).
     and_then (load_files to_float self2 (files_of InputTest directory) False)
       (\<lambda>(input_test_data, self3).
     and_then (load_files to_float self3 (files_of OutputTest directory) True)
       (\<lambda>(output_test_data, self4).
     and_then (normalise self4 input_train_data)
       (\<lambda>input_train_normalised.
     and_then (normalise self4 input_test_data)
       (\<lambda>input_test_normalised.
          Inr ((input_train_normalised, output_train_data,
                input_test_normalised, output_test_data), self4)))))))"

text \<open>
  A reading of number literals for the examples: the four literals that the example
  files contain; on any other text it raises.
\<close>

definition demo_float :: "string \<Rightarrow> real option" where
  "demo_float s =
     (if s = ''0'' then Some 0 else if s = ''1'' then Some 1
      else if s = ''2'' then Some 2 else if s = ''4'' then Some 4 else None)"

subsection \<open>Vocabulary of the loader properties\<close>

text \<open>
  The rows of the loaded input files, those of the training files first: what the two
  calls of \<^verbatim>\<open>_load_files\<close> with \<^verbatim>\<open>is_output=False\<close> read when both succeed.
\<close>

definition loaded_inputs :: "(string \<Rightarrow> real option) \<Rightarrow> (string \<times> string list list) list \<Rightarrow> real list list" where
  "loaded_inputs to_float directory =
     (case load_rows to_float False
             (concat (files_of InputTrain directory @ files_of InputTest directory)) of
        Inl e \<Rightarrow> []
      | Inr data \<Rightarrow> data)"


text \<open>
  A directory for the examples: two training samples, and one test sample whose input row
  is the parameter.
\<close>

definition demo_directory :: "string list \<Rightarrow> (string \<times> string list list) list" where
  "demo_directory test_row =
     [(''trainvalid_i_1.csv'',
         [[''0'', ''0'', ''0'', ''0'', ''0'', ''0'', ''0'', ''0'', ''0''],
          [''1'', ''1'', ''1'', ''1'', ''1'', ''1'', ''1'', ''1'', ''2'']]),
      (''trainvalid_o_1.csv'', [[''1'', ''0''], [''0'', ''1'']]),
      (''test_i_1.csv'', [test_row]),
      (''test_o_1.csv'', [[''0'', ''1'']])]"

section \<open>Properties of the comparison\<close>

lemma for_loop_snoc:
  "for_loop (xs @ [x]) body st =
     (case for_loop xs body st of Inl e \<Rightarrow> Inl e | Inr st' \<Rightarrow> body st' x)"
  by (induction xs arbitrary: st) (auto split: sum.splits)

lemma inner_loop:
  assumes "\<forall>i < n. j < length (results ! i)"
    and "n \<le> length (number_of_errors st)"
  shows "\<exists>st'. for_loop [0..<n] (check_variant results test_target j) st = Inr st'
     \<and> length (number_of_errors st') = length (number_of_errors st)
     \<and> (\<forall>i < length (number_of_errors st). number_of_errors st' ! i =
           number_of_errors st ! i + (if i < n \<and> mismatch results test_target i j then 1 else 0))
     \<and> flag_no_errors st' = (flag_no_errors st \<and> \<not> (\<exists>i < n. mismatch results test_target i j))
     \<and> flag_iteration_error st' = (flag_iteration_error st \<or> (\<exists>i < n. mismatch results test_target i j))
     \<and> comparision_file st' = comparision_file st"
  using assms
proof (induction n)
  case 0
  then show ?case by simp
next
  case (Suc n)
  then obtain st1 where 1: "for_loop [0..<n] (check_variant results test_target j) st = Inr st1"
     and 2: "length (number_of_errors st1) = length (number_of_errors st)"
     and 3: "\<forall>i < length (number_of_errors st). number_of_errors st1 ! i =
           number_of_errors st ! i + (if i < n \<and> mismatch results test_target i j then 1 else 0)"
     and 4: "flag_no_errors st1 = (flag_no_errors st \<and> \<not> (\<exists>i < n. mismatch results test_target i j))"
     and 5: "flag_iteration_error st1 = (flag_iteration_error st \<or> (\<exists>i < n. mismatch results test_target i j))"
     and 6: "comparision_file st1 = comparision_file st"
    using Suc.IH Suc.prems by (metis Suc_leD less_Suc_eq)
  have j: "j < length (results ! n)" using Suc.prems by simp
  have n: "n < length (number_of_errors st)" using Suc.prems by simp
  define st2 where "st2 = (if mismatch results test_target n j
       then st1\<lparr>number_of_errors := (number_of_errors st1)[n := number_of_errors st1 ! n + 1],
                 flag_no_errors := False, flag_iteration_error := True\<rparr>
       else st1)"
  have step: "for_loop [0..<Suc n] (check_variant results test_target j) st = Inr st2"
    using 1 j by (simp add: for_loop_snoc check_variant_def getitem_def mismatch_def st2_def)
  have a: "length (number_of_errors st2) = length (number_of_errors st)"
    using 2 by (simp add: st2_def)
  have b: "\<forall>i < length (number_of_errors st). number_of_errors st2 ! i =
           number_of_errors st ! i + (if i < Suc n \<and> mismatch results test_target i j then 1 else 0)"
    using 2 3 n by (auto simp: st2_def nth_list_update less_Suc_eq)
  have c: "flag_no_errors st2 = (flag_no_errors st \<and> \<not> (\<exists>i < Suc n. mismatch results test_target i j))"
    using 4 by (auto simp: st2_def less_Suc_eq)
  have d: "flag_iteration_error st2 = (flag_iteration_error st \<or> (\<exists>i < Suc n. mismatch results test_target i j))"
    using 5 by (auto simp: st2_def less_Suc_eq)
  have e: "comparision_file st2 = comparision_file st"
    using 6 by (simp add: st2_def)
  show ?case using step a b c d e by blast
qed


lemma version_lines_ok:
  "\<forall>i \<in> set is. i < length results_names \<and> j < length (results ! i) \<Longrightarrow>
   version_lines results results_names j is = Inr (map (\<lambda>i. (results_names ! i, results ! i ! j)) is)"
  by (induction "is") (simp_all add: getitem_def)

lemma error_lines_ok:
  "\<forall>i \<in> set is. i < length results_names \<Longrightarrow>
   error_lines results_names errs is = Inr (map (\<lambda>i. NumberOfErrors (results_names ! i) (errs ! i)) is)"
  by (induction "is") (simp_all add: getitem_def)

lemma check_sample_ok:
  assumes shape: "\<forall>i < length results. j < length (results ! i)"
    and names: "length results \<le> length results_names"
    and len: "length (number_of_errors st) = length results"
  shows "\<exists>st'. check_sample results results_names test_target flag st j = Inr st'
     \<and> length (number_of_errors st') = length results
     \<and> (\<forall>i < length results. number_of_errors st' ! i =
           number_of_errors st ! i + (if mismatch results test_target i j then 1 else 0))
     \<and> flag_no_errors st' = (flag_no_errors st \<and> \<not> any_mismatch results test_target j)
     \<and> comparision_file st' = comparision_file st @
          (if flag \<and> any_mismatch results test_target j
           then [entry_for results results_names test_target j] else [])"
proof -
  let ?st0 = "st\<lparr>flag_iteration_error := False\<rparr>"
  have "length results \<le> length (number_of_errors ?st0)" using len by simp
  from inner_loop [OF shape this, of test_target]
  obtain st1 where 1: "for_loop [0..<length results] (check_variant results test_target j) ?st0 = Inr st1"
     and 2: "length (number_of_errors st1) = length (number_of_errors ?st0)"
     and 3: "\<forall>i < length (number_of_errors ?st0). number_of_errors st1 ! i =
           number_of_errors ?st0 ! i + (if i < length results \<and> mismatch results test_target i j then 1 else 0)"
     and 4: "flag_no_errors st1 = (flag_no_errors ?st0 \<and> \<not> (\<exists>i < length results. mismatch results test_target i j))"
     and 5: "flag_iteration_error st1 = (flag_iteration_error ?st0 \<or> (\<exists>i < length results. mismatch results test_target i j))"
     and 6: "comparision_file st1 = comparision_file ?st0"
    by blast
  have vl: "version_lines results results_names j [0..<length results] =
              Inr (map (\<lambda>i. (results_names ! i, results ! i ! j)) [0..<length results])"
    using shape names by (intro version_lines_ok) simp
  have fie: "flag_iteration_error st1 = any_mismatch results test_target j"
    using 5 by (simp add: any_mismatch_def)
  define st2 where "st2 = (if flag \<and> any_mismatch results test_target j
       then st1\<lparr>comparision_file := comparision_file st1 @ [entry_for results results_names test_target j]\<rparr>
       else st1)"
  have step: "check_sample results results_names test_target flag st j = Inr st2"
    using 1 vl fie by (simp add: check_sample_def st2_def entry_for_def)
  have a: "length (number_of_errors st2) = length results"
    using 2 len by (simp add: st2_def)
  have b: "\<forall>i < length results. number_of_errors st2 ! i =
           number_of_errors st ! i + (if mismatch results test_target i j then 1 else 0)"
    using 3 len by (simp add: st2_def)
  have c: "flag_no_errors st2 = (flag_no_errors st \<and> \<not> any_mismatch results test_target j)"
    using 4 by (simp add: st2_def any_mismatch_def)
  have d: "comparision_file st2 = comparision_file st @
          (if flag \<and> any_mismatch results test_target j
           then [entry_for results results_names test_target j] else [])"
    using 6 by (simp add: st2_def)
  show ?thesis using step a b c d by blast
qed

lemma sample_loop:
  assumes shape: "\<forall>i < length results. m \<le> length (results ! i)"
    and names: "length results \<le> length results_names"
    and len: "length (number_of_errors st) = length results"
  shows "\<exists>st'. for_loop [0..<m] (check_sample results results_names test_target flag) st = Inr st'
     \<and> length (number_of_errors st') = length results
     \<and> (\<forall>i < length results. number_of_errors st' ! i =
           number_of_errors st ! i + length (filter (mismatch results test_target i) [0..<m]))
     \<and> flag_no_errors st' = (flag_no_errors st \<and> \<not> (\<exists>j < m. any_mismatch results test_target j))
     \<and> comparision_file st' = comparision_file st @
          (if flag
           then map (entry_for results results_names test_target)
                  (filter (any_mismatch results test_target) [0..<m])
           else [])"
  using shape
proof (induction m)
  case 0
  then show ?case using len by simp
next
  case (Suc m)
  have "\<forall>i < length results. m \<le> length (results ! i)"
    using Suc.prems by (simp add: Suc_leD)
  from Suc.IH [OF this]
  obtain st1 where 1: "for_loop [0..<m] (check_sample results results_names test_target flag) st = Inr st1"
     and 2: "length (number_of_errors st1) = length results"
     and 3: "\<forall>i < length results. number_of_errors st1 ! i =
           number_of_errors st ! i + length (filter (mismatch results test_target i) [0..<m])"
     and 4: "flag_no_errors st1 = (flag_no_errors st \<and> \<not> (\<exists>j < m. any_mismatch results test_target j))"
     and 5: "comparision_file st1 = comparision_file st @
          (if flag
           then map (entry_for results results_names test_target)
                  (filter (any_mismatch results test_target) [0..<m])
           else [])"
    by blast
  have "\<forall>i < length results. m < length (results ! i)"
    using Suc.prems by (simp add: Suc_le_eq)
  from check_sample_ok [OF this names 2, of test_target flag]
  obtain st2 where s: "check_sample results results_names test_target flag st1 m = Inr st2"
     and a: "length (number_of_errors st2) = length results"
     and b: "\<forall>i < length results. number_of_errors st2 ! i =
           number_of_errors st1 ! i + (if mismatch results test_target i m then 1 else 0)"
     and c: "flag_no_errors st2 = (flag_no_errors st1 \<and> \<not> any_mismatch results test_target m)"
     and d: "comparision_file st2 = comparision_file st1 @
          (if flag \<and> any_mismatch results test_target m
           then [entry_for results results_names test_target m] else [])"
    by blast
  have step: "for_loop [0..<Suc m] (check_sample results results_names test_target flag) st = Inr st2"
    using 1 s by (simp add: for_loop_snoc)
  have b': "\<forall>i < length results. number_of_errors st2 ! i =
           number_of_errors st ! i + length (filter (mismatch results test_target i) [0..<Suc m])"
    using 3 b by simp
  have c': "flag_no_errors st2 = (flag_no_errors st \<and> \<not> (\<exists>j < Suc m. any_mismatch results test_target j))"
    using 4 c by (auto simp: less_Suc_eq)
  have d': "comparision_file st2 = comparision_file st @
          (if flag
           then map (entry_for results results_names test_target)
                  (filter (any_mismatch results test_target) [0..<Suc m])
           else [])"
    using 5 d by simp
  show ?case using step a b' c' d' by blast
qed


lemma count_upt: "length (filter P [0..<n]) = card {j. j < n \<and> P j}"
proof -
  have "set (filter P [0..<n]) = {j. j < n \<and> P j}" by auto
  moreover have "distinct (filter P [0..<n])" by simp
  ultimately show ?thesis by (metis distinct_card)
qed

lemma compare_ok:
  assumes wf: "well_formed results results_names test_target"
    and op: "flag \<longrightarrow> can_open"
  shows "compare_with_own_classifier results results_names test_target flag can_open =
     Inr \<lparr>errors_per_variant =
            map (\<lambda>i. length (filter (mismatch results test_target i) [0..<length test_target]))
              [0..<length results],
          details =
            (if flag
             then map (entry_for results results_names test_target)
                    (filter (any_mismatch results test_target) [0..<length test_target])
             else []),
          console =
            (if \<exists>j < length test_target. any_mismatch results test_target j
             then map (\<lambda>i. NumberOfErrors (results_names ! i)
                      (length (filter (mismatch results test_target i) [0..<length test_target])))
                    [0..<length results]
             else [AllResultsTheSame])\<rparr>"
proof -
  let ?st0 = "\<lparr>number_of_errors = replicate (length results) (0::nat),
                 flag_no_errors = True,
                 flag_iteration_error = False,
                 comparision_file = ([] :: 'a details_entry list)\<rparr>"
  let ?cnt = "\<lambda>i. length (filter (mismatch results test_target i) [0..<length test_target])"
  have shape: "\<forall>i < length results. length test_target \<le> length (results ! i)"
    using wf by (simp add: well_formed_def list_all_length)
  have names: "length results \<le> length results_names"
    using wf by (simp add: well_formed_def)
  have len: "length (number_of_errors ?st0) = length results" by simp
  from sample_loop [OF shape names len, of test_target flag]
  obtain st1 where 1: "for_loop [0..<length test_target]
         (check_sample results results_names test_target flag) ?st0 = Inr st1"
     and 2: "length (number_of_errors st1) = length results"
     and 3: "\<forall>i < length results. number_of_errors st1 ! i = number_of_errors ?st0 ! i + ?cnt i"
     and 4: "flag_no_errors st1 = (flag_no_errors ?st0 \<and>
               \<not> (\<exists>j < length test_target. any_mismatch results test_target j))"
     and 5: "comparision_file st1 = comparision_file ?st0 @
          (if flag
           then map (entry_for results results_names test_target)
                  (filter (any_mismatch results test_target) [0..<length test_target])
           else [])"
    by blast
  have errs: "number_of_errors st1 = map ?cnt [0..<length results]"
    using 2 3 by (intro nth_equalityI) simp_all
  have el: "error_lines results_names (number_of_errors st1) [0..<length results] =
        Inr (map (\<lambda>i. NumberOfErrors (results_names ! i) (number_of_errors st1 ! i)) [0..<length results])"
    using names by (intro error_lines_ok) simp
  have el': "map (\<lambda>i. NumberOfErrors (results_names ! i) (number_of_errors st1 ! i)) [0..<length results]
       = map (\<lambda>i. NumberOfErrors (results_names ! i) (?cnt i)) [0..<length results]"
    using 3 by simp
  show ?thesis
    using op 1 4 5 errs el el' by (auto simp: compare_with_own_classifier_def)
qed






text \<open>
  Claim C4. For a well-formed run, the comparison returns, and the accumulated count of
  variant \<open>i\<close> is the number of sample indices \<open>j\<close> with
  \<open>results[i][j] \<noteq> test_target[j]\<close>; it is at most the number of test samples.
\<close>

theorem mismatch_counts:
  assumes "well_formed results results_names test_target" and "flag \<longrightarrow> can_open"
  shows "\<exists>r. compare_with_own_classifier results results_names test_target flag can_open = Inr r
     \<and> length (errors_per_variant r) = length results
     \<and> (\<forall>i < length results.
           errors_per_variant r ! i =
             card {j. j < length test_target \<and> results ! i ! j \<noteq> test_target ! j}
         \<and> errors_per_variant r ! i \<le> length test_target)"
proof -
  have "length (filter (mismatch results test_target i) [0..<length test_target]) =
          card {j. j < length test_target \<and> results ! i ! j \<noteq> test_target ! j}" for i
    by (simp add: count_upt mismatch_def)
  moreover have "length (filter (mismatch results test_target i) [0..<length test_target])
          \<le> length test_target" for i
    using length_filter_le [of "mismatch results test_target i" "[0..<length test_target]"] by simp
  ultimately show ?thesis
    using compare_ok [OF assms] by simp
qed

text \<open>Claim C4 at a run of two variants over three samples.\<close>

theorem mismatch_counts_witness:
  "well_formed [[1, 0, 1], [1, 1, 1 :: int]] [''a'', ''b''] [1, 1, 0] \<and>
   (\<exists>r. compare_with_own_classifier [[1, 0, 1], [1, 1, 1 :: int]] [''a'', ''b''] [1, 1, 0] True True = Inr r
     \<and> length (errors_per_variant r) = length [[1, 0, 1], [1, 1, 1 :: int]]
     \<and> (\<forall>i < length [[1, 0, 1], [1, 1, 1 :: int]].
           errors_per_variant r ! i =
             card {j. j < length [1, 1, 0 :: int] \<and> [[1, 0, 1], [1, 1, 1 :: int]] ! i ! j \<noteq> [1, 1, 0] ! j}
         \<and> errors_per_variant r ! i \<le> length [1, 1, 0 :: int]))"
proof -
  have h: "well_formed [[1, 0, 1], [1, 1, 1 :: int]] [''a'', ''b''] [1, 1, 0]"
    by (simp add: well_formed_def)
  show ?thesis
    using h mismatch_counts [OF h, of True True] by blast
qed

text \<open>
  Claim C6. Whatever the predictions are (any number of mismatches against the ground
  truth or between variants), the comparison of a well-formed run returns normally. The
  only exceptions of the function are an IndexError on a variant shorter than the ground
  truth or on a missing variant name, and the failure to open the details file.
\<close>

theorem comparison_returns:
  assumes "well_formed results results_names test_target" and "flag \<longrightarrow> can_open"
  shows "\<exists>r. compare_with_own_classifier results results_names test_target flag can_open = Inr r"
  using compare_ok [OF assms] by simp

text \<open>Claim C6 at a run in which every sample has a mismatch.\<close>

theorem comparison_returns_witness:
  "well_formed [[1, 0, 1], [0, 0, 0 :: int]] [''a'', ''b''] [1, 1, 0] \<and>
   (\<exists>r. compare_with_own_classifier [[1, 0, 1], [0, 0, 0 :: int]] [''a'', ''b''] [1, 1, 0] True True = Inr r)"
proof -
  have h: "well_formed [[1, 0, 1], [0, 0, 0 :: int]] [''a'', ''b''] [1, 1, 0]"
    by (simp add: well_formed_def)
  show ?thesis
    using h comparison_returns [OF h, of True True] by simp
qed

section \<open>Properties of the pipeline\<close>

lemma generate_supported:
  "sk_class clf = DecisionTreeClassifier \<or> sk_class clf = RandomForestClassifier \<Longrightarrow>
   \<exists>c name. generate_my_classifier clf nf nb path rf =
     ([Printed (if c = Tree then ''Creating decision tree classifier!''
                else ''Creating random forest classifier!''),
       Constructed c name nf nb, Built c, VhdlFileCreated path, ParametersPrinted rf],
      Inr (build (new_own_clf c name nf nb) clf))"
  by (auto simp: generate_my_classifier_def)

text \<open>
  Claim C3, as amended. The two \<^verbatim>\<open>isinstance\<close> tests accept the two classifier classes
  only: the call raises the ValueError exactly when the estimator is neither a
  \<^verbatim>\<open>DecisionTreeClassifier\<close> nor a \<^verbatim>\<open>RandomForestClassifier\<close>, and for these two it
  returns the built \<^verbatim>\<open>Tree\<close> or \<^verbatim>\<open>RandomForest\<close>.
\<close>

theorem unsupported_model_iff:
  "(snd (generate_my_classifier clf number_of_features number_of_bits_per_feature path result_file
          :: 'l effect list \<times> (error + 'm own_clf))
      = Inl (ValueError ''Unknown type of classifier!''))
     = (sk_class clf \<noteq> DecisionTreeClassifier \<and> sk_class clf \<noteq> RandomForestClassifier)
   \<and> (sk_class clf = DecisionTreeClassifier \<longrightarrow>
        snd (generate_my_classifier clf number_of_features number_of_bits_per_feature path result_file
          :: 'l effect list \<times> (error + 'm own_clf))
          = Inr (build (new_own_clf Tree ''DecisionTreeClassifier''
                   number_of_features number_of_bits_per_feature) clf))
   \<and> (sk_class clf = RandomForestClassifier \<longrightarrow>
        snd (generate_my_classifier clf number_of_features number_of_bits_per_feature path result_file
          :: 'l effect list \<times> (error + 'm own_clf))
          = Inr (build (new_own_clf RandomForest ''RandomForestClassifier''
                   number_of_features number_of_bits_per_feature) clf))"
  by (simp add: generate_my_classifier_def)

text \<open>The amended claim C3 at a random forest classifier.\<close>

theorem unsupported_model_iff_witness:
  "sk_class \<lparr>sk_class = RandomForestClassifier, sk_params = ()\<rparr> = RandomForestClassifier
   \<and> snd (generate_my_classifier \<lparr>sk_class = RandomForestClassifier, sk_params = ()\<rparr> 4 9 ''vhdl'' None
          :: int effect list \<times> (error + unit own_clf))
       = Inr (build (new_own_clf RandomForest ''RandomForestClassifier'' 4 9)
                \<lparr>sk_class = RandomForestClassifier, sk_params = ()\<rparr>)"
  using unsupported_model_iff
    [where clf = "\<lparr>sk_class = RandomForestClassifier, sk_params = ()\<rparr>"
       and number_of_features = 4 and number_of_bits_per_feature = 9
       and path = "''vhdl''" and result_file = None and ?'l = int]
  by simp

text \<open>
  Claim C3 as stated fails: it counts a regressor among the supported kinds, and for a
  \<^verbatim>\<open>RandomForestRegressor\<close> the function prints the message and raises the ValueError.
\<close>

theorem regressor_rejected:
  "generate_my_classifier \<lparr>sk_class = RandomForestRegressor, sk_params = ()\<rparr> 4 9 ''vhdl'' None =
     ([Printed ''Unknown type of classifier!''], Inl (ValueError ''Unknown type of classifier!''))"
  by (simp add: generate_my_classifier_def)

text \<open>
  Claim C7. For an estimator that is neither a \<^verbatim>\<open>DecisionTreeClassifier\<close> nor a
  \<^verbatim>\<open>RandomForestClassifier\<close> the call consists of the one printed line and the
  ValueError: no object is constructed or built, no VHDL file is created, no parameters are
  printed and nothing is returned.
\<close>

theorem unknown_kind_fails_at_once:
  assumes "sk_class clf \<noteq> DecisionTreeClassifier" and "sk_class clf \<noteq> RandomForestClassifier"
  shows "generate_my_classifier clf number_of_features number_of_bits_per_feature path result_file =
     ([Printed ''Unknown type of classifier!''], Inl (ValueError ''Unknown type of classifier!''))"
  using assms by (simp add: generate_my_classifier_def)

text \<open>Claim C7 at an estimator of another class.\<close>

theorem unknown_kind_fails_at_once_witness:
  "sk_class \<lparr>sk_class = OtherEstimator, sk_params = ()\<rparr> \<noteq> DecisionTreeClassifier \<and>
   sk_class \<lparr>sk_class = OtherEstimator, sk_params = ()\<rparr> \<noteq> RandomForestClassifier \<and>
   generate_my_classifier \<lparr>sk_class = OtherEstimator, sk_params = ()\<rparr> 4 9 ''vhdl'' None =
     ([Printed ''Unknown type of classifier!''], Inl (ValueError ''Unknown type of classifier!''))"
  using unknown_kind_fails_at_once [of "\<lparr>sk_class = OtherEstimator, sk_params = ()\<rparr>" 4 9 "''vhdl''" None]
  by simp

lemma generate_bits:
  "e \<in> set (fst (generate_my_classifier clf nf nb path rf :: 'l effect list \<times> _)) \<Longrightarrow>
   constructed_bits e = Some b \<Longrightarrow> b = nb"
  by (auto simp: generate_my_classifier_def constructed_bits_def split: if_splits)

lemma generate_bits':
  "generate_my_classifier clf nf nb path rf = (effs, r) \<Longrightarrow> e \<in> set effs \<Longrightarrow>
   constructed_bits e = Some b \<Longrightarrow> b = nb"
  using generate_bits [of e clf nf nb path rf b] by simp

lemma test_dataset_bits:
  assumes "e \<in> set (fst (test_dataset ext can_open B train_data train_target
                      test_data test_target clf path))"
    and "constructed_bits e = Some b"
  shows "b = B + 1"
  using assms
  by (auto simp: test_dataset_def Let_def constructed_bits_def
      split: prod.splits list.splits sum.splits dest: generate_bits')

lemma test_dataset_constructs:
  fixes ext :: "('m, 'l) externals"
  assumes "sk_class clf = DecisionTreeClassifier \<or> sk_class clf = RandomForestClassifier"
    and "train_data \<noteq> []"
  shows "\<exists>c name nf. Constructed c name nf (B + 1)
         \<in> set (fst (test_dataset ext can_open B train_data train_target
                      test_data test_target clf path))"
proof -
  obtain row rows where tr: "train_data = row # rows"
    using assms(2) by (cases train_data) auto
  obtain trq teq where q: "quantize_data ext train_data test_data B = (trq, teq)"
    by (cases "quantize_data ext train_data test_data B") auto
  let ?clf1 = "clf\<lparr>sk_params := sk_fit ext clf train_data train_target\<rparr>"
  let ?clf2 = "?clf1\<lparr>sk_params := sk_fit ext ?clf1 trq train_target\<rparr>"
  have "sk_class ?clf2 = DecisionTreeClassifier \<or> sk_class ?clf2 = RandomForestClassifier"
    using assms(1) by simp
  from generate_supported [OF this, of "int (length row)" "B + 1" path None]
  obtain c name where g: "(generate_my_classifier ?clf2 (int (length row)) (B + 1) path None
        :: 'l effect list \<times> _) =
     ([Printed (if c = Tree then ''Creating decision tree classifier!''
                else ''Creating random forest classifier!''),
       Constructed c name (int (length row)) (B + 1), Built c, VhdlFileCreated path,
       ParametersPrinted None],
      Inr (build (new_own_clf c name (int (length row)) (B + 1)) ?clf2))"
    by blast
  have "Constructed c name (int (length row)) (B + 1)
         \<in> set (fst (test_dataset ext can_open B train_data train_target
                      test_data test_target clf path))"
    using tr q g by (simp add: test_dataset_def Let_def split: sum.splits)
  then show ?thesis by blast
qed

text \<open>
  Claim C5. Every constructor call in the trace of a run with feature width \<open>B\<close> is given
  the bit width \<open>B + 1\<close>, and a run on one of the two accepted classes with a non-empty
  training set makes such a call.
\<close>

theorem threshold_width:
  "(\<forall>e \<in> set (fst (test_dataset ext can_open number_of_bits_per_feature train_data train_target
                      test_data test_target clf path)).
      \<forall>b. constructed_bits e = Some b \<longrightarrow> b = number_of_bits_per_feature + 1)
   \<and> ((sk_class clf = DecisionTreeClassifier \<or> sk_class clf = RandomForestClassifier)
        \<and> train_data \<noteq> [] \<longrightarrow>
      (\<exists>c name nf. Constructed c name nf (number_of_bits_per_feature + 1)
         \<in> set (fst (test_dataset ext can_open number_of_bits_per_feature train_data train_target
                      test_data test_target clf path))))"
proof (intro conjI ballI allI impI)
  fix e b
  assume "e \<in> set (fst (test_dataset ext can_open number_of_bits_per_feature train_data train_target
                      test_data test_target clf path))"
    and "constructed_bits e = Some b"
  then show "b = number_of_bits_per_feature + 1"
    by (rule test_dataset_bits)
next
  assume "(sk_class clf = DecisionTreeClassifier \<or> sk_class clf = RandomForestClassifier)
        \<and> train_data \<noteq> []"
  then show "\<exists>c name nf. Constructed c name nf (number_of_bits_per_feature + 1)
         \<in> set (fst (test_dataset ext can_open number_of_bits_per_feature train_data train_target
                      test_data test_target clf path))"
    using test_dataset_constructs by blast
qed


text \<open>Claim C5 at a run with four bits per feature on a decision tree.\<close>

theorem threshold_width_witness:
  "sk_class \<lparr>sk_class = DecisionTreeClassifier, sk_params = ()\<rparr> = DecisionTreeClassifier \<and>
   [[1 / 2, 1 :: real]] \<noteq> [] \<and>
   Constructed Tree ''DecisionTreeClassifier'' 2 5
     \<in> set (fst (test_dataset demo_externals True 4 [[1 / 2, 1]] [1] [[1 / 4, 3 / 4]] [1]
                    \<lparr>sk_class = DecisionTreeClassifier, sk_params = ()\<rparr> ''out'')) \<and>
   constructed_bits (Constructed Tree ''DecisionTreeClassifier'' 2 5 :: int effect) = Some 5 \<and>
   (5 :: int) = 4 + 1"
proof -
  have m: "Constructed Tree ''DecisionTreeClassifier'' 2 5
     \<in> set (fst (test_dataset demo_externals True 4 [[1 / 2, 1]] [1] [[1 / 4, 3 / 4]] [1]
                    \<lparr>sk_class = DecisionTreeClassifier, sk_params = ()\<rparr> ''out''))"
    by (simp add: test_dataset_def demo_externals_def generate_my_classifier_def Let_def
        split: sum.splits)
  have c: "constructed_bits (Constructed Tree ''DecisionTreeClassifier'' 2 5 :: int effect) = Some 5"
    by (simp add: constructed_bits_def)
  have a: "sk_class \<lparr>sk_class = DecisionTreeClassifier, sk_params = ()\<rparr> = DecisionTreeClassifier"
    by simp
  have b: "[[1 / 2, 1 :: real]] \<noteq> []"
    by simp
  have d: "\<forall>e \<in> set (fst (test_dataset demo_externals True 4 [[1 / 2, 1]] [1] [[1 / 4, 3 / 4]] [1]
                    \<lparr>sk_class = DecisionTreeClassifier, sk_params = ()\<rparr> ''out'')).
      \<forall>b. constructed_bits e = Some b \<longrightarrow> b = 4 + 1"
    using threshold_width [of demo_externals True 4 "[[1 / 2, 1]]" "[1]" "[[1 / 4, 3 / 4]]" "[1]"
        "\<lparr>sk_class = DecisionTreeClassifier, sk_params = ()\<rparr>" "''out''"]
    by (rule conjunct1)
  have e: "(5 :: int) = 4 + 1"
    using d m c by blast
  show ?thesis
    using a b m c e by (intro conjI)
qed



section \<open>Properties of the loader\<close>

lemma and_then_Inr: "and_then m f = Inr y \<longleftrightarrow> (\<exists>x. m = Inr x \<and> f x = Inr y)"
  by (cases m) (simp_all add: and_then_def)

lemma load_rows_append:
  "load_rows to_float is_output (xs @ ys) =
     (case load_rows to_float is_output xs of
        Inl e \<Rightarrow> Inl e
      | Inr a \<Rightarrow>
          (case load_rows to_float is_output ys of
             Inl e \<Rightarrow> Inl e
           | Inr b \<Rightarrow> Inr (a @ b)))"
  by (induction xs) (auto split: sum.splits)

lemma update_min_max_Inr:
  assumes "update_min_max self data = Inr self'"
  shows "rms_entries data \<noteq> [] \<and> zero_crossings_entries data \<noteq> [] \<and> data \<noteq> []
    \<and> self_min_rms self' =
        Some (case self_min_rms self of
                None \<Rightarrow> Min (set (rms_entries data))
              | Some m \<Rightarrow> min m (Min (set (rms_entries data))))
    \<and> self_max_rms self' = max (self_max_rms self) (Max (set (rms_entries data)))
    \<and> self_min_zero_crossings self' =
        Some (case self_min_zero_crossings self of
                None \<Rightarrow> Min (set (zero_crossings_entries data))
              | Some m \<Rightarrow> min m (Min (set (zero_crossings_entries data))))
    \<and> self_max_zero_crossings self' =
        max (self_max_zero_crossings self) (Max (set (zero_crossings_entries data)))"
  using assms
  by (auto simp: update_min_max_def Let_def below_def split: if_splits option.splits)

lemma load_files_output:
  "load_files to_float self files True = Inr (data, self') \<Longrightarrow>
   self' = self \<and> load_rows to_float True (concat files) = Inr data"
  by (auto simp: load_files_def split: sum.splits if_splits)

lemma load_files_input:
  "load_files to_float self files False = Inr (data, self') \<Longrightarrow>
   load_rows to_float False (concat files) = Inr data \<and> update_min_max self data = Inr self'"
  by (auto simp: load_files_def split: sum.splits if_splits)


lemma rms_entries_append: "rms_entries (a @ b) = rms_entries a @ rms_entries b"
  by (simp add: rms_entries_def)

lemma zero_crossings_entries_append:
  "zero_crossings_entries (a @ b) = zero_crossings_entries a @ zero_crossings_entries b"
  by (simp add: zero_crossings_entries_def)

lemma Min_append: "xs \<noteq> [] \<Longrightarrow> ys \<noteq> [] \<Longrightarrow> Min (set (xs @ ys)) = min (Min (set xs)) (Min (set ys))"
  by (simp add: Min_Un)

lemma Max_append_0:
  "xs \<noteq> [] \<Longrightarrow> ys \<noteq> [] \<Longrightarrow>
   Max (insert (0::real) (set (xs @ ys))) = max (max 0 (Max (set xs))) (Max (set ys))"
  by (simp add: Max_Un max.assoc)

lemma load_data_Inr:
  assumes "load_data to_float EMGRaw_init directory = Inr ((train, train_target, test, test_target), self')"
  shows "\<exists>raw_train raw_test.
      load_rows to_float False (concat (files_of InputTrain directory)) = Inr raw_train
    \<and> load_rows to_float False (concat (files_of InputTest directory)) = Inr raw_test
    \<and> rms_entries raw_train \<noteq> [] \<and> rms_entries raw_test \<noteq> []
    \<and> zero_crossings_entries raw_train \<noteq> [] \<and> zero_crossings_entries raw_test \<noteq> []
    \<and> self_min_rms self' =
        Some (min (Min (set (rms_entries raw_train))) (Min (set (rms_entries raw_test))))
    \<and> self_max_rms self' =
        max (max 0 (Max (set (rms_entries raw_train)))) (Max (set (rms_entries raw_test)))
    \<and> self_min_zero_crossings self' =
        Some (min (Min (set (zero_crossings_entries raw_train)))
                  (Min (set (zero_crossings_entries raw_test))))
    \<and> self_max_zero_crossings self' =
        max (max 0 (Max (set (zero_crossings_entries raw_train))))
            (Max (set (zero_crossings_entries raw_test)))
    \<and> train = map (normalise_row self') raw_train
    \<and> test = map (normalise_row self') raw_test"
proof -
  from assms obtain raw_train self1 out_train self2 raw_test self3 out_test self4 where
    1: "load_files to_float EMGRaw_init (files_of InputTrain directory) False = Inr (raw_train, self1)"
    and 2: "load_files to_float self1 (files_of OutputTrain directory) True = Inr (out_train, self2)"
    and 3: "load_files to_float self2 (files_of InputTest directory) False = Inr (raw_test, self3)"
    and 4: "load_files to_float self3 (files_of OutputTest directory) True = Inr (out_test, self4)"
    and 5: "normalise self4 raw_train = Inr train"
    and 6: "normalise self4 raw_test = Inr test"
    and 7: "self' = self4"
    by (auto simp: load_data_def and_then_Inr)
  have s2: "self2 = self1" using load_files_output [OF 2] by simp
  have s4: "self4 = self3" using load_files_output [OF 4] by simp
  note u1 = update_min_max_Inr [OF conjunct2 [OF load_files_input [OF 1]]]
  note u3 = update_min_max_Inr [OF conjunct2 [OF load_files_input [OF 3 [unfolded s2]]]]
  have a: "self_min_rms self' =
        Some (min (Min (set (rms_entries raw_train))) (Min (set (rms_entries raw_test))))"
    using u1 u3 7 s4 by (simp add: EMGRaw_init_def)
  have b: "self_max_rms self' =
        max (max 0 (Max (set (rms_entries raw_train)))) (Max (set (rms_entries raw_test)))"
    using u1 u3 7 s4 by (simp add: EMGRaw_init_def)
  have c: "self_min_zero_crossings self' =
        Some (min (Min (set (zero_crossings_entries raw_train)))
                  (Min (set (zero_crossings_entries raw_test))))"
    using u1 u3 7 s4 by (simp add: EMGRaw_init_def)
  have d: "self_max_zero_crossings self' =
        max (max 0 (Max (set (zero_crossings_entries raw_train))))
            (Max (set (zero_crossings_entries raw_test)))"
    using u1 u3 7 s4 by (simp add: EMGRaw_init_def)
  have e: "train = map (normalise_row self') raw_train"
    using 5 7 by (auto simp: normalise_def split: if_splits)
  have f: "test = map (normalise_row self') raw_test"
    using 6 7 by (auto simp: normalise_def split: if_splits)
  have g: "load_rows to_float False (concat (files_of InputTrain directory)) = Inr raw_train"
    using load_files_input [OF 1] by simp
  have h: "load_rows to_float False (concat (files_of InputTest directory)) = Inr raw_test"
    using load_files_input [OF 3] by simp
  show ?thesis
    using a b c d e f g h u1 u3 by blast
qed

lemma loaded_inputs_eq:
  assumes "load_rows to_float False (concat (files_of InputTrain directory)) = Inr raw_train"
    and "load_rows to_float False (concat (files_of InputTest directory)) = Inr raw_test"
  shows "loaded_inputs to_float directory = raw_train @ raw_test"
  using assms by (simp add: loaded_inputs_def load_rows_append)

lemma index_of_None: "index_of x xs = None \<longleftrightarrow> x \<notin> set xs"
  by (induction xs) auto

lemma index_of_Some:
  "index_of x xs = Some i \<Longrightarrow> i < length xs \<and> xs ! i = x \<and> (\<forall>j < i. xs ! j \<noteq> x)"
proof (induction xs arbitrary: i)
  case Nil
  then show ?case by simp
next
  case (Cons y ys)
  show ?case
  proof (cases "y = x")
    case True
    then show ?thesis using Cons.prems by simp
  next
    case False
    then obtain k where k: "index_of x ys = Some k" and i: "i = Suc k"
      using Cons.prems by auto
    from Cons.IH [OF k] have "k < length ys \<and> ys ! k = x \<and> (\<forall>j < k. ys ! j \<noteq> x)" .
    then show ?thesis using False i by (auto simp: nth_Cons split: nat.splits)
  qed
qed

lemma load_rows_output_ok:
  "\<forall>row \<in> set rows. ''1'' \<in> set row \<Longrightarrow>
   load_rows to_float True rows = Inr (map (\<lambda>row. [real (the (index_of ''1'' row))]) rows)"
proof (induction rows)
  case Nil
  then show ?case by simp
next
  case (Cons row rows)
  then obtain i where "index_of ''1'' row = Some i"
    using index_of_None [of "''1''" row] by auto
  then show ?case using Cons by (simp add: load_row_def)
qed

lemma load_rows_output_fail:
  "\<exists>row \<in> set rows. ''1'' \<notin> set row \<Longrightarrow>
   load_rows to_float True rows = Inl (ValueError ''is not in list'')"
proof (induction rows)
  case Nil
  then show ?case by simp
next
  case (Cons row rows)
  show ?case
  proof (cases "''1'' \<in> set row")
    case True
    then obtain i where "index_of ''1'' row = Some i"
      using index_of_None [of "''1''" row] by auto
    moreover have "load_rows to_float True rows = Inl (ValueError ''is not in list'')"
      using Cons True by auto
    ultimately show ?thesis by (simp add: load_row_def)
  next
    case False
    then have "index_of ''1'' row = None" by (simp add: index_of_None)
    then show ?thesis by (simp add: load_row_def)
  qed
qed

lemma rectangular_singletons: "rectangular (map (\<lambda>row. [f row]) rows)"
  by (cases rows) (simp_all add: rectangular_def list_all_iff)

text \<open>
  Claim C10. With \<^verbatim>\<open>is_output\<close> set, if every row has a cell \<^verbatim>\<open>'1'\<close> the call returns one
  singleton per row, holding the index of the first cell whose text is exactly \<^verbatim>\<open>'1'\<close>,
  and leaves the object unchanged; if some row has no such cell, the call raises a
  ValueError and no label is produced.
\<close>

theorem one_hot_decoding:
  "((\<forall>row \<in> set (concat files). ''1'' \<in> set row) \<longrightarrow>
      (\<exists>data. load_files to_float self files True = Inr (data, self)
         \<and> length data = length (concat files)
         \<and> (\<forall>k < length data. \<exists>i.
               data ! k = [real i] \<and> i < length (concat files ! k)
             \<and> concat files ! k ! i = ''1'' \<and> (\<forall>j < i. concat files ! k ! j \<noteq> ''1''))))
   \<and> ((\<exists>row \<in> set (concat files). ''1'' \<notin> set row) \<longrightarrow>
      (\<exists>msg. load_files to_float self files True = Inl (ValueError msg)))"
proof (intro conjI impI)
  assume all: "\<forall>row \<in> set (concat files). ''1'' \<in> set row"
  let ?data = "map (\<lambda>row. [real (the (index_of ''1'' row))]) (concat files)"
  have rows: "load_rows to_float True (concat files) = Inr ?data"
    using all by (rule load_rows_output_ok)
  have lf: "load_files to_float self files True = Inr (?data, self)"
    using rows rectangular_singletons [of "\<lambda>row. real (the (index_of ''1'' row))" "concat files"]
    by (simp add: load_files_def)
  have cells: "\<exists>i. ?data ! k = [real i] \<and> i < length (concat files ! k)
             \<and> concat files ! k ! i = ''1'' \<and> (\<forall>j < i. concat files ! k ! j \<noteq> ''1'')"
    if k: "k < length ?data" for k
  proof -
    have "concat files ! k \<in> set (concat files)" using k by (simp del: set_concat)
    then have "''1'' \<in> set (concat files ! k)" using all by blast
    then obtain i where i: "index_of ''1'' (concat files ! k) = Some i"
      using index_of_None [of "''1''" "concat files ! k"] by auto
    from index_of_Some [OF i] show ?thesis using k i by auto
  qed
  show "\<exists>data. load_files to_float self files True = Inr (data, self)
         \<and> length data = length (concat files)
         \<and> (\<forall>k < length data. \<exists>i.
               data ! k = [real i] \<and> i < length (concat files ! k)
             \<and> concat files ! k ! i = ''1'' \<and> (\<forall>j < i. concat files ! k ! j \<noteq> ''1''))"
    using lf cells by (intro exI [of _ ?data]) simp
next
  assume "\<exists>row \<in> set (concat files). ''1'' \<notin> set row"
  then have "load_rows to_float True (concat files) = Inl (ValueError ''is not in list'')"
    by (rule load_rows_output_fail)
  then show "\<exists>msg. load_files to_float self files True = Inl (ValueError msg)"
    by (simp add: load_files_def)
qed

text \<open>
  Claim C10 at a file of two one-hot rows, and at two files whose last row has the cell
  \<^verbatim>\<open>'1.0'\<close> but no cell \<^verbatim>\<open>'1'\<close>.
\<close>

theorem one_hot_decoding_witness:
  "(\<exists>data. load_files demo_float EMGRaw_init [[[''0'', ''1'', ''1''], [''1'', ''0'', ''0'']]] True =
       Inr (data, EMGRaw_init) \<and> data = [[1], [0]]
       \<and> length data = length (concat [[[''0'', ''1'', ''1''], [''1'', ''0'', ''0'']]]))
   \<and> (\<exists>msg. load_files demo_float EMGRaw_init [[[''0'', ''1'', ''1'']], [[''0'', ''0'', ''1.0'']]] True
          = Inl (ValueError msg))"
proof -
  have a: "load_files demo_float EMGRaw_init [[[''0'', ''1'', ''1''], [''1'', ''0'', ''0'']]] True =
       Inr ([[1], [0]], EMGRaw_init)"
    by (simp add: load_files_def load_row_def rectangular_def)
  have "\<forall>row \<in> set (concat [[[''0'', ''1'', ''1''], [''1'', ''0'', ''0'']]]). ''1'' \<in> set row"
    by simp
  then have "\<exists>data. load_files demo_float EMGRaw_init [[[''0'', ''1'', ''1''], [''1'', ''0'', ''0'']]] True =
       Inr (data, EMGRaw_init)
       \<and> length data = length (concat [[[''0'', ''1'', ''1''], [''1'', ''0'', ''0'']]])"
    using one_hot_decoding [of "[[[''0'', ''1'', ''1''], [''1'', ''0'', ''0'']]]" demo_float EMGRaw_init]
    by blast
  then have c: "\<exists>data. load_files demo_float EMGRaw_init [[[''0'', ''1'', ''1''], [''1'', ''0'', ''0'']]] True =
       Inr (data, EMGRaw_init) \<and> data = [[1], [0]]
       \<and> length data = length (concat [[[''0'', ''1'', ''1''], [''1'', ''0'', ''0'']]])"
    using a by auto
  have "\<exists>row \<in> set (concat [[[''0'', ''1'', ''1'']], [[''0'', ''0'', ''1.0'']]]). ''1'' \<notin> set row"
    by simp
  then have b: "\<exists>msg. load_files demo_float EMGRaw_init [[[''0'', ''1'', ''1'']], [[''0'', ''0'', ''1.0'']]] True
          = Inl (ValueError msg)"
    using one_hot_decoding [of "[[[''0'', ''1'', ''1'']], [[''0'', ''0'', ''1.0'']]]" demo_float EMGRaw_init]
    by blast
  show ?thesis using c b by (intro conjI)
qed








lemma demo_load_1:
  "load_data demo_float EMGRaw_init
     (demo_directory [''1'', ''1'', ''1'', ''1'', ''1'', ''1'', ''1'', ''1'', ''1'']) =
   Inr (([[Some 0, Some 0, Some 0, Some 0, Some 0, Some 0, Some 0, Some 0, Some 0],
          [Some 1, Some 1, Some 1, Some 1, Some 1, Some 1, Some 1, Some 1, Some 1]],
         [[0], [1]],
         [[Some 1, Some 1, Some 1, Some 1, Some 1, Some 1, Some 1, Some 1, Some (1 / 2)]],
         [[1]]),
        \<lparr>self_min_rms = Some 0, self_max_rms = 1,
         self_min_zero_crossings = Some 0, self_max_zero_crossings = 2\<rparr>)"
  by (simp add: load_data_def and_then_def demo_directory_def files_of_def role_of_def
      load_files_def load_row_def demo_float_def rectangular_def update_min_max_def
      rms_entries_def zero_crossings_entries_def below_def EMGRaw_init_def Let_def
      normalise_def normalise_row_def scale_def)

lemma demo_load_2:
  "load_data demo_float EMGRaw_init
     (demo_directory [''2'', ''2'', ''2'', ''2'', ''2'', ''2'', ''2'', ''2'', ''4'']) =
   Inr (([[Some 0, Some 0, Some 0, Some 0, Some 0, Some 0, Some 0, Some 0, Some 0],
          [Some (1 / 2), Some (1 / 2), Some (1 / 2), Some (1 / 2), Some (1 / 2), Some (1 / 2),
           Some (1 / 2), Some (1 / 2), Some (1 / 2)]],
         [[0], [1]],
         [[Some 1, Some 1, Some 1, Some 1, Some 1, Some 1, Some 1, Some 1, Some 1]],
         [[1]]),
        \<lparr>self_min_rms = Some 0, self_max_rms = 2,
         self_min_zero_crossings = Some 0, self_max_zero_crossings = 4\<rparr>)"
  by (simp add: load_data_def and_then_def demo_directory_def files_of_def role_of_def
      load_files_def load_row_def demo_float_def rectangular_def update_min_max_def
      rms_entries_def zero_crossings_entries_def below_def EMGRaw_init_def Let_def
      normalise_def normalise_row_def scale_def)



text \<open>
  Claim C2, as amended. The bounds are kept per feature group, not per column, and they
  are accumulated over every input file that is loaded, the test files included, before
  anything is normalised: after \<^verbatim>\<open>load_data\<close> on a new object, the minimum of a group is
  the least entry of the group in the training and test inputs together, the maximum is
  the greatest such entry or the initial \<open>0\<close>, and both partitions are transformed with
  these bounds.
\<close>

theorem bounds_from_all_inputs:
  assumes "load_data to_float EMGRaw_init directory =
      Inr ((train, train_target, test, test_target), self')"
  shows "self_min_rms self' = Some (Min (set (rms_entries (loaded_inputs to_float directory))))
    \<and> self_max_rms self' = Max (insert 0 (set (rms_entries (loaded_inputs to_float directory))))
    \<and> self_min_zero_crossings self' =
        Some (Min (set (zero_crossings_entries (loaded_inputs to_float directory))))
    \<and> self_max_zero_crossings self' =
        Max (insert 0 (set (zero_crossings_entries (loaded_inputs to_float directory))))
    \<and> (\<exists>raw_train raw_test.
          load_rows to_float False (concat (files_of InputTrain directory)) = Inr raw_train
        \<and> load_rows to_float False (concat (files_of InputTest directory)) = Inr raw_test
        \<and> loaded_inputs to_float directory = raw_train @ raw_test
        \<and> train = map (normalise_row self') raw_train
        \<and> test = map (normalise_row self') raw_test)"
proof -
  from load_data_Inr [OF assms] obtain raw_train raw_test where
    g: "load_rows to_float False (concat (files_of InputTrain directory)) = Inr raw_train"
    and h: "load_rows to_float False (concat (files_of InputTest directory)) = Inr raw_test"
    and ne: "rms_entries raw_train \<noteq> []" "rms_entries raw_test \<noteq> []"
      "zero_crossings_entries raw_train \<noteq> []" "zero_crossings_entries raw_test \<noteq> []"
    and a: "self_min_rms self' =
        Some (min (Min (set (rms_entries raw_train))) (Min (set (rms_entries raw_test))))"
    and b: "self_max_rms self' =
        max (max 0 (Max (set (rms_entries raw_train)))) (Max (set (rms_entries raw_test)))"
    and c: "self_min_zero_crossings self' =
        Some (min (Min (set (zero_crossings_entries raw_train)))
                  (Min (set (zero_crossings_entries raw_test))))"
    and d: "self_max_zero_crossings self' =
        max (max 0 (Max (set (zero_crossings_entries raw_train))))
            (Max (set (zero_crossings_entries raw_test)))"
    and e: "train = map (normalise_row self') raw_train"
    and f: "test = map (normalise_row self') raw_test"
    by blast
  note li = loaded_inputs_eq [OF g h]
  have a': "self_min_rms self' = Some (Min (set (rms_entries (loaded_inputs to_float directory))))"
    using a Min_append [OF ne(1) ne(2)] by (simp only: li rms_entries_append)
  have b': "self_max_rms self' = Max (insert 0 (set (rms_entries (loaded_inputs to_float directory))))"
    using b Max_append_0 [OF ne(1) ne(2)] by (simp only: li rms_entries_append)
  have c': "self_min_zero_crossings self' =
        Some (Min (set (zero_crossings_entries (loaded_inputs to_float directory))))"
    using c Min_append [OF ne(3) ne(4)] by (simp only: li zero_crossings_entries_append)
  have d': "self_max_zero_crossings self' =
        Max (insert 0 (set (zero_crossings_entries (loaded_inputs to_float directory))))"
    using d Max_append_0 [OF ne(3) ne(4)] by (simp only: li zero_crossings_entries_append)
  show ?thesis
    using a' b' c' d' g h li e f by blast
qed

text \<open>The amended claim C2 at the example directory with a test row above the training range.\<close>

theorem bounds_from_all_inputs_witness:
  "load_data demo_float EMGRaw_init
     (demo_directory [''2'', ''2'', ''2'', ''2'', ''2'', ''2'', ''2'', ''2'', ''4'']) =
   Inr (([[Some 0, Some 0, Some 0, Some 0, Some 0, Some 0, Some 0, Some 0, Some 0],
          [Some (1 / 2), Some (1 / 2), Some (1 / 2), Some (1 / 2), Some (1 / 2), Some (1 / 2),
           Some (1 / 2), Some (1 / 2), Some (1 / 2)]],
         [[0], [1]],
         [[Some 1, Some 1, Some 1, Some 1, Some 1, Some 1, Some 1, Some 1, Some 1]],
         [[1]]),
        \<lparr>self_min_rms = Some 0, self_max_rms = 2,
         self_min_zero_crossings = Some 0, self_max_zero_crossings = 4\<rparr>)
   \<and> Some (0 :: real) = Some (Min (set (rms_entries (loaded_inputs demo_float
        (demo_directory [''2'', ''2'', ''2'', ''2'', ''2'', ''2'', ''2'', ''2'', ''4''])))))
   \<and> (2 :: real) = Max (insert 0 (set (rms_entries (loaded_inputs demo_float
        (demo_directory [''2'', ''2'', ''2'', ''2'', ''2'', ''2'', ''2'', ''2'', ''4''])))))
   \<and> (4 :: real) = Max (insert 0 (set (zero_crossings_entries (loaded_inputs demo_float
        (demo_directory [''2'', ''2'', ''2'', ''2'', ''2'', ''2'', ''2'', ''2'', ''4''])))))"
  using demo_load_2 bounds_from_all_inputs [OF demo_load_2] by simp

text \<open>
  Claim C2 as stated fails: two directories with the same training input files, whose
  test input rows differ, give different normalised training matrices.
\<close>

theorem training_only_bounds_counterexample:
  "files_of InputTrain (demo_directory [''1'', ''1'', ''1'', ''1'', ''1'', ''1'', ''1'', ''1'', ''1''])
     = files_of InputTrain (demo_directory [''2'', ''2'', ''2'', ''2'', ''2'', ''2'', ''2'', ''2'', ''4''])
   \<and> fst (fst (projr (load_data demo_float EMGRaw_init
        (demo_directory [''1'', ''1'', ''1'', ''1'', ''1'', ''1'', ''1'', ''1'', ''1'']))))
       = [[Some 0, Some 0, Some 0, Some 0, Some 0, Some 0, Some 0, Some 0, Some 0],
          [Some 1, Some 1, Some 1, Some 1, Some 1, Some 1, Some 1, Some 1, Some 1]]
   \<and> fst (fst (projr (load_data demo_float EMGRaw_init
        (demo_directory [''2'', ''2'', ''2'', ''2'', ''2'', ''2'', ''2'', ''2'', ''4'']))))
       = [[Some 0, Some 0, Some 0, Some 0, Some 0, Some 0, Some 0, Some 0, Some 0],
          [Some (1 / 2), Some (1 / 2), Some (1 / 2), Some (1 / 2), Some (1 / 2), Some (1 / 2),
           Some (1 / 2), Some (1 / 2), Some (1 / 2)]]"
  by (simp add: demo_load_1 demo_load_2) (simp add: demo_directory_def files_of_def role_of_def)

end
